theory Spec2Isabelle
  imports Main "HOL-Library.Multiset"
begin

section \<open>The element model (src/htmlstr/core.py, lines 7-107)\<close>

text \<open>
  A Python \<^verbatim>\<open>str\<close> is a sequence of Unicode code points: the list of their numbers.
  \<^verbatim>\<open>len\<close> is \<^const>\<open>length\<close>, indexing is \<open>!\<close>, and \<open>lit\<close> gives the \<^verbatim>\<open>str\<close> of
  a literal of the source (all of them ASCII).
\<close>

type_synonym str = "nat list"

definition lit :: "string \<Rightarrow> str" where
  "lit s = map of_char s"

text \<open>
  The fifteen dataclasses of \<^verbatim>\<open>core.py\<close> are the constructors of one datatype, with the
  fields in the order of the source. Python's \<^verbatim>\<open>int\<close> is \<^typ>\<open>int\<close>,
  \<^verbatim>\<open>Optional[str]\<close> is \<^typ>\<open>str option\<close>.
\<close>

datatype element =
    Anchor str "element list"
  | Image str "str option"
  | Text str
  | Button int "element list"
  | Heading int "element list"
  | Paragraph "element list"
  | TextInput int "str option"
  | UrlInput int "str option"
  | CheckboxInput int bool
  | RadioInput int bool
  | Label "element list"
  | Select "element list" bool
  | Option str
  | Details "element list"
  | Summary "element list"

section \<open>The DOM interface\<close>

text \<open>
  \<^verbatim>\<open>LexborNode\<close> belongs to the selectolax library, not to this repository. The classifier
  reads four things of a node, and the model's node carries exactly these:
  \<^item> \<open>tag\<close>: \<^verbatim>\<open>node.tag\<close>, a string or \<^verbatim>\<open>None\<close>;
  \<^item> \<open>attributes\<close>: \<^verbatim>\<open>node.attributes\<close>, a dict from attribute names to
    \<^verbatim>\<open>Optional[str]\<close> (an attribute written without a value is present with \<^verbatim>\<open>None\<close>);
  \<^item> \<open>text_strip\<close>: the value of \<^verbatim>\<open>node.text(strip=True)\<close>;
  \<^item> \<open>iter\<close>: the nodes \<^verbatim>\<open>node.iter(include_text=True)\<close> yields, in order.
\<close>

datatype node =
  LexborNode (tag: "str option") (attributes: "str \<rightharpoonup> str option")
    (text_strip: str) (iter: "node list")

text \<open>
  \<^verbatim>\<open>attributes.get(k, d)\<close>: the default only when the key is absent; a key that is present
  with \<^verbatim>\<open>None\<close> yields \<^verbatim>\<open>None\<close>.
\<close>

definition attr_get ::
  "(str \<rightharpoonup> str option) \<Rightarrow> str \<Rightarrow> str option \<Rightarrow> str option" where
  "attr_get m k d = (case m k of None \<Rightarrow> d | Some v \<Rightarrow> v)"

text \<open>
  \<^verbatim>\<open>not v\<close> for an \<^verbatim>\<open>Optional[str]\<close>: true of \<^verbatim>\<open>None\<close> and of the empty string.
\<close>

definition falsy :: "str option \<Rightarrow> bool" where
  "falsy v = (case v of None \<Rightarrow> True | Some s \<Rightarrow> s = [])"

text \<open>
  The tag as the dispatch chain of \<^verbatim>\<open>parse_children\<close> reads it. Its first test,
  \<^verbatim>\<open>not node.tag or node.tag == "-text"\<close>, sends \<^verbatim>\<open>None\<close> and the empty string to the
  text branch; every later test compares a non-empty string. So \<^verbatim>\<open>None\<close> is read as the
  empty string.
\<close>

definition tag_str :: "node \<Rightarrow> str" where
  "tag_str n = (case tag n of None \<Rightarrow> [] | Some t \<Rightarrow> t)"

subsection \<open>Python's \<^verbatim>\<open>str.isdigit\<close> and \<^verbatim>\<open>int\<close>\<close>

text \<open>
  Both read the Unicode character database that the interpreter carries, a table that
  is not part of this repository: the classifier takes it as the parameter \<open>u\<close>.
  \<open>decimal_value u c\<close> is the decimal digit value of the code point \<open>c\<close>
  (\<^verbatim>\<open>unicodedata.decimal\<close>) and \<open>digit_value u c\<close> its digit value
  (\<^verbatim>\<open>unicodedata.digit\<close>), \<open>None\<close> where the character has none.
\<close>

record unicode =
  decimal_value :: "nat \<Rightarrow> nat option"
  digit_value :: "nat \<Rightarrow> nat option"

text \<open>
  What the theorems use of the database, true of every version of it: a decimal digit
  value is at most 9 and is the character's digit value too; the ASCII digits (code
  points 48 to 57) have the decimal values 0 to 9; the superscript two (U+00B2) has the
  digit value 2 and no decimal value.
\<close>

definition unicode_db :: "unicode \<Rightarrow> bool" where
  "unicode_db u =
     ((\<forall>c v. decimal_value u c = Some v \<longrightarrow> v \<le> 9 \<and> digit_value u c = Some v)
      \<and> (\<forall>c. 48 \<le> c \<and> c \<le> 57 \<longrightarrow> decimal_value u c = Some (c - 48))
      \<and> decimal_value u 0xB2 = None \<and> digit_value u 0xB2 = Some 2)"

text \<open>
  \<^verbatim>\<open>c.isdigit()\<close> for one character: true of the characters that have a digit value
  (Numeric_Type Decimal or Digit).
\<close>

definition isdigit :: "unicode \<Rightarrow> nat \<Rightarrow> bool" where
  "isdigit u c = (digit_value u c \<noteq> None)"

datatype error = ValueError

text \<open>
  \<^verbatim>\<open>int(s)\<close> for a string \<open>s\<close> of one character \<open>c\<close>: the decimal digit value of \<open>c\<close>
  when it has one, and \<^verbatim>\<open>ValueError\<close> otherwise. The classifier calls it on
  \<^verbatim>\<open>node.tag[1:]\<close> where \<^verbatim>\<open>len(node.tag) == 2\<close>, a string of one character.
\<close>

definition int_digit :: "unicode \<Rightarrow> nat \<Rightarrow> error + int" where
  "int_digit u c = (case decimal_value u c of Some v \<Rightarrow> Inr (int v) | None \<Rightarrow> Inl ValueError)"

text \<open>
  The test of lines 187-191:
  \<^verbatim>\<open>len(node.tag) == 2 and node.tag.startswith("h") and node.tag[-1].isdigit()\<close>.
\<close>

definition heading_tag :: "unicode \<Rightarrow> str \<Rightarrow> bool" where
  "heading_tag u t = (length t = 2 \<and> take 1 t = lit ''h'' \<and> isdigit u (last t))"

section \<open>The classifier (class Parser, lines 110-301)\<close>

text \<open>
  A \<^verbatim>\<open>Parser\<close> has one slot, \<^verbatim>\<open>id\<close>. The methods take its value and return the new
  one beside their result. \<^verbatim>\<open>fetch_advance_id\<close> returns the previous value and adds one.
  The first argument of the classifier's functions is the character database.
\<close>

definition fetch_advance_id :: "int \<Rightarrow> int \<times> int" where
  "fetch_advance_id self_id = (let p = self_id in (p, self_id + 1))"

text \<open>
  \<^verbatim>\<open>parse_children\<close> is a loop over \<^verbatim>\<open>root.iter(include_text=True)\<close> that appends to
  \<^verbatim>\<open>elements\<close>: \<open>parse_loop\<close> is the loop, with the list built so far and the counter,
  and \<open>parse_node\<close> is its body, the \<^verbatim>\<open>if\<close>/\<^verbatim>\<open>elif\<close> chain in the order of the source.
  A \<^verbatim>\<open>continue\<close> is a branch that returns \<open>elements\<close> unchanged. An exception is the
  value \<open>Inl\<close>; it ends the loop and every enclosing call, and the counter keeps the value
  it had when the exception was raised.
\<close>

function parse_children :: "unicode \<Rightarrow> node \<Rightarrow> int \<Rightarrow> (error + element list) \<times> int"
  and parse_loop ::
    "unicode \<Rightarrow> node list \<Rightarrow> element list \<Rightarrow> int \<Rightarrow> (error + element list) \<times> int"
  and parse_node ::
    "unicode \<Rightarrow> node \<Rightarrow> element list \<Rightarrow> int \<Rightarrow> (error + element list) \<times> int"
where
  "parse_children u root i = parse_loop u (iter root) [] i"
| "parse_loop u [] elements i = (Inr elements, i)"
| "parse_loop u (n # ns) elements i =
     (case parse_node u n elements i of
        (Inl e, i') \<Rightarrow> (Inl e, i')
      | (Inr elements', i') \<Rightarrow> parse_loop u ns elements' i')"
| "parse_node u n elements i =
     (if tag_str n = [] \<or> tag_str n = lit ''-text'' then
        (if text_strip n \<noteq> [] then (Inr (elements @ [Text (text_strip n)]), i)
         else (Inr elements, i))
      else if tag_str n = lit ''a'' then
        (case attr_get (attributes n) (lit ''href'') None of
           None \<Rightarrow> (Inr elements, i)
         | Some href \<Rightarrow>
             if href = [] then (Inr elements, i)
             else (case parse_children u n i of
                     (Inl e, i') \<Rightarrow> (Inl e, i')
                   | (Inr children, i') \<Rightarrow>
                       if children = [] then (Inr elements, i')
                       else (Inr (elements @ [Anchor href children]), i')))
      else if tag_str n = lit ''img'' then
        (case attr_get (attributes n) (lit ''src'') None of
           None \<Rightarrow> (Inr elements, i)
         | Some src \<Rightarrow>
             if src = [] then (Inr elements, i)
             else (Inr (elements @ [Image src (attr_get (attributes n) (lit ''alt'') None)]), i))
      else if tag_str n = lit ''button'' then
        (case parse_children u n i of
           (Inl e, i') \<Rightarrow> (Inl e, i')
         | (Inr children, i') \<Rightarrow>
             if children = [] then (Inr elements, i')
             else (case fetch_advance_id i' of
                     (p, i'') \<Rightarrow> (Inr (elements @ [Button p children]), i'')))
      else if heading_tag u (tag_str n) then
        (case parse_children u n i of
           (Inl e, i') \<Rightarrow> (Inl e, i')
         | (Inr children, i') \<Rightarrow>
             if children = [] then (Inr elements, i')
             else (case int_digit u (tag_str n ! 1) of
                     Inl e \<Rightarrow> (Inl e, i')
                   | Inr level \<Rightarrow> (Inr (elements @ [Heading level children]), i')))
      else if tag_str n = lit ''p'' then
        (case parse_children u n i of
           (Inl e, i') \<Rightarrow> (Inl e, i')
         | (Inr children, i') \<Rightarrow>
             if children = [] then (Inr elements, i')
             else (Inr (elements @ [Paragraph children]), i'))
      else if tag_str n = lit ''input'' then
        (let ty = attr_get (attributes n) (lit ''type'') (Some (lit ''text'')) in
         if ty = Some (lit ''text'') then
           (case fetch_advance_id i of
              (p, i') \<Rightarrow>
                (Inr (elements @ [TextInput p (attr_get (attributes n) (lit ''placeholder'') None)]),
                 i'))
         else if ty = Some (lit ''url'') then
           (case fetch_advance_id i of
              (p, i') \<Rightarrow>
                (Inr (elements @ [UrlInput p (attr_get (attributes n) (lit ''placeholder'') None)]),
                 i'))
         else if ty = Some (lit ''checkbox'') then
           (let checked =
              (case attributes n (lit ''checked'') of
                 Some v \<Rightarrow> if v = Some (lit ''true'') \<or> falsy v then True else False
               | None \<Rightarrow> False)
            in case fetch_advance_id i of
                 (p, i') \<Rightarrow> (Inr (elements @ [CheckboxInput p checked]), i'))
         else if ty = Some (lit ''radio'') then
           (let checked =
              (case attributes n (lit ''checked'') of
                 Some v \<Rightarrow> if v = Some (lit ''true'') \<or> falsy v then True else False
               | None \<Rightarrow> False)
            in case fetch_advance_id i of
                 (p, i') \<Rightarrow> (Inr (elements @ [RadioInput p checked]), i'))
         else (Inr elements, i))
      else if tag_str n = lit ''select'' then
        (case parse_children u n i of
           (Inl e, i') \<Rightarrow> (Inl e, i')
         | (Inr children, i') \<Rightarrow>
             if children \<noteq> [] then
               (let multiple =
                  (case attributes n (lit ''multiple'') of
                     Some v \<Rightarrow> if v = Some (lit ''true'') \<or> falsy v then True else False
                   | None \<Rightarrow> False)
                in (Inr (elements @ [Select children multiple]), i'))
             else (Inr elements, i'))
      else if tag_str n = lit ''option'' then
        (if text_strip n \<noteq> [] then (Inr (elements @ [Option (text_strip n)]), i)
         else (Inr elements, i))
      else if tag_str n = lit ''label'' then
        (case parse_children u n i of
           (Inl e, i') \<Rightarrow> (Inl e, i')
         | (Inr children, i') \<Rightarrow>
             if children \<noteq> [] then (Inr (elements @ [Label children]), i')
             else (Inr elements, i'))
      else if tag_str n = lit ''details'' then
        (case parse_children u n i of
           (Inl e, i') \<Rightarrow> (Inl e, i')
         | (Inr children, i') \<Rightarrow>
             if children \<noteq> [] then (Inr (elements @ [Details children]), i')
             else (Inr elements, i'))
      else if tag_str n = lit ''summary'' then
        (case parse_children u n i of
           (Inl e, i') \<Rightarrow> (Inl e, i')
         | (Inr children, i') \<Rightarrow>
             if children \<noteq> [] then (Inr (elements @ [Summary children]), i')
             else (Inr elements, i'))
      else
        (case parse_children u n i of
           (Inl e, i') \<Rightarrow> (Inl e, i')
         | (Inr children, i') \<Rightarrow>
             if children \<noteq> [] then (Inr (elements @ children), i')
             else (Inr elements, i')))"
  by pat_completeness auto
termination
proof (relation "measure (\<lambda>x. case x of
      Inl (u, n, i) \<Rightarrow> 3 * size n + 1
    | Inr (Inl (u, ns, els, i)) \<Rightarrow> 3 * size_list size ns
    | Inr (Inr (u, n, els, i)) \<Rightarrow> 3 * size n + 2)", goal_cases)
  case (2 u root i)
  then show ?case by (cases root) simp
qed simp_all

declare parse_children.simps [simp del] parse_node.simps [simp del]

subsection \<open>Parser objects\<close>

text \<open>
  Parser objects live in a store: the list of the \<^verbatim>\<open>id\<close> slots of the objects made so
  far, an object's reference being its index. \<^verbatim>\<open>Parser()\<close> makes a new object whose
  \<^verbatim>\<open>__init__\<close> sets \<^verbatim>\<open>self.id = 0\<close>.
\<close>

type_synonym ref = nat
type_synonym store = "int list"

definition Parser_init :: "store \<Rightarrow> ref \<times> store" where
  "Parser_init s = (length s, s @ [0])"

text \<open>
  \<^verbatim>\<open>parse(self, html)\<close>. \<^verbatim>\<open>LexborHTMLParser(html).body\<close> is the library's: the model
  takes it as the function \<open>body\<close> from the document's text to its body node, \<open>None\<close>
  when the document has none. The call reads and writes the slot of \<open>self\<close> only.
\<close>

definition parse ::
  "unicode \<Rightarrow> (str \<Rightarrow> node option) \<Rightarrow> ref \<Rightarrow> str \<Rightarrow> store
     \<Rightarrow> (error + element list) \<times> store" where
  "parse u body self html s =
     (case body html of
        None \<Rightarrow> (Inr [], s)
      | Some b \<Rightarrow> (case parse_children u b (s ! self) of (r, i') \<Rightarrow> (r, s[self := i'])))"

section \<open>Reading an output\<close>

text \<open>
  The identifiers of an output in the order in which \<^verbatim>\<open>fetch_advance_id\<close> handed them
  out. A button's children are classified before the button takes its identifier
  (line 181 before line 185), so the identifiers inside a button come first.
\<close>

fun alloc_ids :: "element \<Rightarrow> int list" where
  "alloc_ids (Anchor href inner) = concat (map alloc_ids inner)"
| "alloc_ids (Image src alt) = []"
| "alloc_ids (Text content) = []"
| "alloc_ids (Button p inner) = concat (map alloc_ids inner) @ [p]"
| "alloc_ids (Heading level inner) = concat (map alloc_ids inner)"
| "alloc_ids (Paragraph inner) = concat (map alloc_ids inner)"
| "alloc_ids (TextInput p placeholder) = [p]"
| "alloc_ids (UrlInput p placeholder) = [p]"
| "alloc_ids (CheckboxInput p checked) = [p]"
| "alloc_ids (RadioInput p checked) = [p]"
| "alloc_ids (Label inner) = concat (map alloc_ids inner)"
| "alloc_ids (Select inner multiple) = concat (map alloc_ids inner)"
| "alloc_ids (Option t) = []"
| "alloc_ids (Details inner) = concat (map alloc_ids inner)"
| "alloc_ids (Summary inner) = concat (map alloc_ids inner)"


text \<open>
  No empty payload anywhere in an element: every \<open>inner\<close> list, every \<open>Text\<close> content
  and every \<open>Option\<close> text is non-empty, at every depth.
\<close>

fun nonempty :: "element \<Rightarrow> bool" where
  "nonempty (Anchor href inner) = (inner \<noteq> [] \<and> list_all nonempty inner)"
| "nonempty (Image src alt) = True"
| "nonempty (Text content) = (content \<noteq> [])"
| "nonempty (Button p inner) = (inner \<noteq> [] \<and> list_all nonempty inner)"
| "nonempty (Heading level inner) = (inner \<noteq> [] \<and> list_all nonempty inner)"
| "nonempty (Paragraph inner) = (inner \<noteq> [] \<and> list_all nonempty inner)"
| "nonempty (TextInput p placeholder) = True"
| "nonempty (UrlInput p placeholder) = True"
| "nonempty (CheckboxInput p checked) = True"
| "nonempty (RadioInput p checked) = True"
| "nonempty (Label inner) = (inner \<noteq> [] \<and> list_all nonempty inner)"
| "nonempty (Select inner multiple) = (inner \<noteq> [] \<and> list_all nonempty inner)"
| "nonempty (Option t) = (t \<noteq> [])"
| "nonempty (Details inner) = (inner \<noteq> [] \<and> list_all nonempty inner)"
| "nonempty (Summary inner) = (inner \<noteq> [] \<and> list_all nonempty inner)"


text \<open>
  What a run that took the counter from \<open>i\<close> to \<open>i'\<close> and produced \<open>out\<close> satisfies:
  the identifiers handed out are \<open>i, ..., i' - 1\<close> in this order, and \<open>out\<close> has no
  empty payload.
\<close>

definition run_ok :: "int \<Rightarrow> int \<Rightarrow> element list \<Rightarrow> bool" where
  "run_ok i i' out =
     (i \<le> i' \<and> concat (map alloc_ids out) = [i..i' - 1] \<and> list_all nonempty out)"

text \<open>
  The rule of the specification for the attributes \<^verbatim>\<open>checked\<close> and \<^verbatim>\<open>multiple\<close>, in
  its words: an absent key gives false; a present key gives true when its value is the
  literal string \<^verbatim>\<open>"true"\<close> or is empty or falsy (\<^verbatim>\<open>None\<close>, the empty string), and
  false for any other non-empty string. The argument is the lookup of the key.
\<close>

fun boolean_attribute :: "str option option \<Rightarrow> bool" where
  "boolean_attribute None = False"
| "boolean_attribute (Some None) = True"
| "boolean_attribute (Some (Some v)) = (v = lit ''true'' \<or> v = [])"

section \<open>Example documents\<close>

text \<open>
  Some rows of the character database, for the examples: the ASCII digits, the
  Arabic-Indic digits (U+0660 to U+0669) and the superscripts two, three and one
  (U+00B2, U+00B3, U+00B9), which have a digit value and no decimal value.
\<close>

definition ucd_sample :: unicode where
  "ucd_sample =
     \<lparr>decimal_value =
        (\<lambda>c. if 48 \<le> c \<and> c \<le> 57 then Some (c - 48)
             else if 0x660 \<le> c \<and> c \<le> 0x669 then Some (c - 0x660)
             else None),
      digit_value =
        (\<lambda>c. if 48 \<le> c \<and> c \<le> 57 then Some (c - 48)
             else if 0x660 \<le> c \<and> c \<le> 0x669 then Some (c - 0x660)
             else if c = 0xB2 then Some 2
             else if c = 0xB3 then Some 3
             else if c = 0xB9 then Some 1
             else None)\<rparr>"

definition text_node :: "str \<Rightarrow> node" where
  "text_node t = LexborNode (Some (lit ''-text'')) Map.empty t []"


text \<open>
  The first scenario of the specification:
  \<^verbatim>\<open><body><h2>Title</h2><p>Hi <a href="/x">link</a></p>
  <div><input type="checkbox" checked></div></body>\<close>
\<close>

definition scenario :: node where
  "scenario =
     LexborNode (Some (lit ''body'')) Map.empty (lit ''TitleHilink'')
       [LexborNode (Some (lit ''h2'')) Map.empty (lit ''Title'') [text_node (lit ''Title'')],
        LexborNode (Some (lit ''p'')) Map.empty (lit ''Hilink'')
          [text_node (lit ''Hi''),
           LexborNode (Some (lit ''a'')) [lit ''href'' \<mapsto> Some (lit ''/x'')] (lit ''link'') [text_node (lit ''link'')]],
        LexborNode (Some (lit ''div'')) Map.empty []
          [LexborNode (Some (lit ''input''))
             [lit ''type'' \<mapsto> Some (lit ''checkbox''), lit ''checked'' \<mapsto> None] [] []]]"

text \<open>An \<^verbatim>\<open>input\<close> tag with the given attributes, and a \<^verbatim>\<open>div\<close> around the given nodes.\<close>

definition input_of :: "(str \<rightharpoonup> str option) \<Rightarrow> node" where
  "input_of attrs = LexborNode (Some (lit ''input'')) attrs [] []"

definition div_of :: "node list \<Rightarrow> node" where
  "div_of ns = LexborNode (Some (lit ''div'')) Map.empty [] ns"

text \<open>The tag \<open>t\<close> around the text \<^verbatim>\<open>x\<close>, such as \<^verbatim>\<open><h2>x</h2>\<close>.\<close>

definition heading_x :: "str \<Rightarrow> node" where
  "heading_x t = LexborNode (Some t) Map.empty (lit ''x'') [text_node (lit ''x'')]"

text \<open>
  The second scenario of the specification, with the given attributes on the select:
  \<^verbatim>\<open><select><option>A</option><option></option></select>\<close>
\<close>

definition select_A :: "(str \<rightharpoonup> str option) \<Rightarrow> node" where
  "select_A attrs =
     LexborNode (Some (lit ''select'')) attrs (lit ''A'')
       [LexborNode (Some (lit ''option'')) Map.empty (lit ''A'') [text_node (lit ''A'')],
        LexborNode (Some (lit ''option'')) Map.empty [] []]"

text \<open>\<^verbatim>\<open><body><button> </button><input></body>\<close>: the button holds white space only.\<close>

definition blank_button_then_input :: node where
  "blank_button_then_input =
     LexborNode (Some (lit ''body'')) Map.empty []
       [LexborNode (Some (lit ''button'')) Map.empty [] [text_node []],
        input_of Map.empty]"

text \<open>
  An anchor without \<^verbatim>\<open>href\<close> around an input and a heading whose tag is \<^verbatim>\<open>h\<close> followed
  by the superscript two (U+00B2).
\<close>

definition anchor_no_href :: node where
  "anchor_no_href =
     LexborNode (Some (lit ''a'')) Map.empty (lit ''x'')
       [input_of Map.empty, heading_x (lit ''h'' @ [0xB2])]"

text \<open>
  A document whose body holds the one tag \<^verbatim>\<open>h\<close> followed by the superscript two, around
  the text \<^verbatim>\<open>x\<close>; and the library's parser on it.
\<close>

definition superscript_html :: str where
  "superscript_html = lit ''<body><h'' @ [0xB2] @ lit ''>x</h'' @ [0xB2] @ lit ''></body>''"

definition superscript_body :: "str \<Rightarrow> node option" where
  "superscript_body html =
     (if html = superscript_html
      then Some (LexborNode (Some (lit ''body'')) Map.empty (lit ''x'')
            [heading_x (lit ''h'' @ [0xB2])])
      else None)"

text \<open>\<^verbatim>\<open><body><button>go</button><input></body>\<close>, and the library's parser on it.\<close>

definition input_html :: str where
  "input_html = lit ''<body><button>go</button><input></body>''"



definition input_body :: "str \<Rightarrow> node option" where
  "input_body html =
     (if html = input_html
      then Some (LexborNode (Some (lit ''body'')) Map.empty (lit ''go'')
            [LexborNode (Some (lit ''button'')) Map.empty (lit ''go'') [text_node (lit ''go'')],
             input_of Map.empty])
      else None)"

section \<open>The invariant of a run\<close>

lemma lit_eq_iff [simp]: "lit a = lit b \<longleftrightarrow> a = b"
  by (simp add: lit_def inj_map_eq_map inj_of_char)

lemma lit_Nil [simp]: "lit [] = []"
  by (simp add: lit_def)

lemma lit_eq_Nil [simp]: "lit s = [] \<longleftrightarrow> s = []" "[] = lit s \<longleftrightarrow> s = []"
  by (auto simp: lit_def)

lemma length_lit [simp]: "length (lit s) = length s"
  by (simp add: lit_def)

text \<open>The rows of the example database satisfy what the theorems ask of a database.\<close>

lemma unicode_db_sample: "unicode_db ucd_sample"
  by (auto simp: unicode_db_def ucd_sample_def split: if_splits)

lemmas eval_simps =
  parse_children.simps parse_node.simps tag_str_def attr_get_def heading_tag_def isdigit_def
  int_digit_def fetch_advance_id_def falsy_def text_node_def input_of_def div_of_def
  heading_x_def lit_def ucd_sample_def

lemma upto_glue: "i \<le> k \<Longrightarrow> k \<le> j \<Longrightarrow> [i..k - 1] @ [k..j - 1] = [i..j - 1]" for i j k :: int
  by (cases "k = j") (simp_all add: upto_split1 [of i k "j - 1"])

lemma upto_snoc: "i \<le> j \<Longrightarrow> [i..j - 1] @ [j] = [i..j]" for i j :: int
  by (simp add: upto_rec2)

lemma run_ok_Nil: "run_ok i i []"
  by (simp add: run_ok_def)

lemma run_ok_append: "run_ok i k xs \<Longrightarrow> run_ok k j ys \<Longrightarrow> run_ok i j (xs @ ys)"
  by (auto simp: run_ok_def upto_glue)

text \<open>One pass of the loop body keeps the invariant, if the recursive calls on the node do.\<close>

lemma parse_node_run_ok_step:
  assumes ih: "\<And>j cs j'. parse_children u n j = (Inr cs, j') \<Longrightarrow> run_ok j j' cs"
    and run: "parse_node u n els i = (Inr es, i')"
  shows "\<exists>out. es = els @ out \<and> run_ok i i' out"
  using run
  apply (simp add: parse_node.simps fetch_advance_id_def Let_def
      split: if_splits option.splits prod.splits sum.splits)
  apply (auto simp: run_ok_def upto_snoc dest!: ih)
  done

lemma parse_loop_run_ok_step:
  assumes "\<forall>n \<in> set ns. \<forall>j cs j'. parse_children u n j = (Inr cs, j') \<longrightarrow> run_ok j j' cs"
    and "parse_loop u ns els i = (Inr es, i')"
  shows "\<exists>out. es = els @ out \<and> run_ok i i' out"
  using assms
proof (induction ns arbitrary: els i)
  case Nil
  then show ?case by (simp add: run_ok_Nil)
next
  case (Cons n ns)
  from Cons.prems(2) obtain els1 i1 where
    step: "parse_node u n els i = (Inr els1, i1)" and rest: "parse_loop u ns els1 i1 = (Inr es, i')"
    by (auto split: prod.splits sum.splits)
  have "parse_children u n j = (Inr cs, j') \<Longrightarrow> run_ok j j' cs" for j cs j'
    using Cons.prems(1) by simp
  from parse_node_run_ok_step [OF this step] obtain out1 where
    o1: "els1 = els @ out1" "run_ok i i1 out1" by blast
  from Cons.prems(1) have
    "\<forall>m \<in> set ns. \<forall>j cs j'. parse_children u m j = (Inr cs, j') \<longrightarrow> run_ok j j' cs"
    by simp
  from Cons.IH [OF this rest] obtain out2 where
    o2: "es = els1 @ out2" "run_ok i1 i' out2" by blast
  from o1 o2 show ?case by (auto intro: run_ok_append)
qed

lemma parse_children_run_ok:
  "parse_children u root i = (Inr es, i') \<Longrightarrow> run_ok i i' es"
proof (induction root arbitrary: i es i')
  case (LexborNode t a x cs)
  from LexborNode.prems have "parse_loop u cs [] i = (Inr es, i')"
    by (simp add: parse_children.simps)
  moreover have
    "\<forall>n \<in> set cs. \<forall>j out j'. parse_children u n j = (Inr out, j') \<longrightarrow> run_ok j j' out"
    using LexborNode.IH by blast
  ultimately obtain out where "es = [] @ out" "run_ok i i' out"
    using parse_loop_run_ok_step by blast
  then show ?case by simp
qed




text \<open>The first scenario of the specification yields the output the specification gives.\<close>

lemma scenario_output:
  "parse_children ucd_sample scenario 0 =
     (Inr [Heading 2 [Text (lit ''Title'')],
           Paragraph [Text (lit ''Hi''), Anchor (lit ''/x'') [Text (lit ''link'')]],
           CheckboxInput 0 True], 1)"
  by (simp add: scenario_def eval_simps)

section \<open>Identifiers\<close>









section \<open>Boolean attributes\<close>

text \<open>
  Claim C2. The \<^verbatim>\<open>checked\<close> of an emitted checkbox or radio input and the \<^verbatim>\<open>multiple\<close>
  of an emitted select are the specification's rule applied to the attribute lookup:
  false when the key is absent, true when it is present with \<^verbatim>\<open>"true"\<close> or an empty or
  falsy value, false when it is present with any other non-empty string.
\<close>

theorem boolean_attribute_coercion:
  "(tag_str n = lit ''input'' \<and> attributes n (lit ''type'') = Some (Some (lit ''checkbox'')) \<longrightarrow>
      parse_node u n els i =
        (Inr (els @ [CheckboxInput i (boolean_attribute (attributes n (lit ''checked'')))]), i + 1))
   \<and> (tag_str n = lit ''input'' \<and> attributes n (lit ''type'') = Some (Some (lit ''radio'')) \<longrightarrow>
      parse_node u n els i =
        (Inr (els @ [RadioInput i (boolean_attribute (attributes n (lit ''checked'')))]), i + 1))
   \<and> (tag_str n = lit ''select'' \<and> parse_children u n i = (Inr cs, i') \<and> cs \<noteq> [] \<longrightarrow>
      parse_node u n els i =
        (Inr (els @ [Select cs (boolean_attribute (attributes n (lit ''multiple'')))]), i'))"
proof -
  have flag: "(case m of Some v \<Rightarrow> if v = Some (lit ''true'') \<or> falsy v then True else False
                | None \<Rightarrow> False) = boolean_attribute m" for m
    by (cases m rule: boolean_attribute.cases) (simp_all add: falsy_def)
  show ?thesis
    by (simp add: parse_node.simps attr_get_def fetch_advance_id_def heading_tag_def flag)
qed

text \<open>
  The rule at work on checkboxes, radio inputs and the select of the specification's
  second scenario, for an absent key, a key without value, and the values \<^verbatim>\<open>""\<close>,
  \<^verbatim>\<open>"true"\<close>, \<^verbatim>\<open>"false"\<close>, \<^verbatim>\<open>"checked"\<close> and \<^verbatim>\<open>"0"\<close>.
\<close>

theorem boolean_attribute_coercion_witness:
  "parse_node ucd_sample (input_of [lit ''type'' \<mapsto> Some (lit ''checkbox'')]) [] 0 = (Inr [CheckboxInput 0 False], 1)
   \<and> parse_node ucd_sample (input_of [lit ''checked'' \<mapsto> None, lit ''type'' \<mapsto> Some (lit ''checkbox'')]) [] 0
       = (Inr [CheckboxInput 0 True], 1)
   \<and> parse_node ucd_sample (input_of [lit ''checked'' \<mapsto> Some [], lit ''type'' \<mapsto> Some (lit ''checkbox'')]) [] 0
       = (Inr [CheckboxInput 0 True], 1)
   \<and> parse_node ucd_sample (input_of [lit ''checked'' \<mapsto> Some (lit ''true''), lit ''type'' \<mapsto> Some (lit ''checkbox'')]) [] 0
       = (Inr [CheckboxInput 0 True], 1)
   \<and> parse_node ucd_sample (input_of [lit ''checked'' \<mapsto> Some (lit ''false''), lit ''type'' \<mapsto> Some (lit ''checkbox'')]) [] 0
       = (Inr [CheckboxInput 0 False], 1)
   \<and> parse_node ucd_sample (input_of [lit ''checked'' \<mapsto> Some (lit ''checked''), lit ''type'' \<mapsto> Some (lit ''radio'')]) [] 0
       = (Inr [RadioInput 0 False], 1)
   \<and> parse_node ucd_sample (input_of [lit ''checked'' \<mapsto> Some (lit ''true''), lit ''type'' \<mapsto> Some (lit ''radio'')]) [] 0
       = (Inr [RadioInput 0 True], 1)
   \<and> parse_children ucd_sample (select_A [lit ''multiple'' \<mapsto> None]) 0 = (Inr [Option (lit ''A'')], 0)
   \<and> parse_node ucd_sample (select_A [lit ''multiple'' \<mapsto> None]) [] 0 = (Inr [Select [Option (lit ''A'')] True], 0)
   \<and> parse_node ucd_sample (select_A Map.empty) [] 0 = (Inr [Select [Option (lit ''A'')] False], 0)
   \<and> parse_node ucd_sample (select_A [lit ''multiple'' \<mapsto> Some (lit ''0'')]) [] 0
       = (Inr [Select [Option (lit ''A'')] False], 0)"
proof -
  have kids: "parse_children ucd_sample (select_A m) 0 = (Inr [Option (lit ''A'')], 0)" for m
    by (simp add: select_A_def eval_simps)
  have tags: "tag_str (input_of m) = lit ''input''" "tag_str (select_A m) = lit ''select''" for m
    by (simp_all add: input_of_def select_A_def tag_str_def)
  have attrs: "attributes (input_of m) = m" "attributes (select_A m) = m" for m
    by (simp_all add: input_of_def select_A_def)
  show ?thesis
    using boolean_attribute_coercion [of "input_of [lit ''type'' \<mapsto> Some (lit ''checkbox'')]" ucd_sample "[]" 0]
      boolean_attribute_coercion
        [of "input_of [lit ''checked'' \<mapsto> None, lit ''type'' \<mapsto> Some (lit ''checkbox'')]" ucd_sample "[]" 0]
      boolean_attribute_coercion
        [of "input_of [lit ''checked'' \<mapsto> Some [], lit ''type'' \<mapsto> Some (lit ''checkbox'')]" ucd_sample "[]" 0]
      boolean_attribute_coercion
        [of "input_of [lit ''checked'' \<mapsto> Some (lit ''true''), lit ''type'' \<mapsto> Some (lit ''checkbox'')]" ucd_sample "[]" 0]
      boolean_attribute_coercion
        [of "input_of [lit ''checked'' \<mapsto> Some (lit ''false''), lit ''type'' \<mapsto> Some (lit ''checkbox'')]" ucd_sample "[]" 0]
      boolean_attribute_coercion
        [of "input_of [lit ''checked'' \<mapsto> Some (lit ''checked''), lit ''type'' \<mapsto> Some (lit ''radio'')]" ucd_sample "[]" 0]
      boolean_attribute_coercion
        [of "input_of [lit ''checked'' \<mapsto> Some (lit ''true''), lit ''type'' \<mapsto> Some (lit ''radio'')]" ucd_sample "[]" 0]
      boolean_attribute_coercion
        [of "select_A [lit ''multiple'' \<mapsto> None]" ucd_sample "[]" 0 "[Option (lit ''A'')]" 0]
      boolean_attribute_coercion [of "select_A Map.empty" ucd_sample "[]" 0 "[Option (lit ''A'')]" 0]
      boolean_attribute_coercion
        [of "select_A [lit ''multiple'' \<mapsto> Some (lit ''0'')]" ucd_sample "[]" 0 "[Option (lit ''A'')]" 0]
    by (simp add: kids tags attrs)
qed

section \<open>Headings\<close>

lemma heading_tag_not_named:
  "heading_tag u t \<Longrightarrow> t \<noteq> lit ''p'' \<and> t \<noteq> lit ''input'' \<and> t \<noteq> lit ''select''
     \<and> t \<noteq> lit ''option'' \<and> t \<noteq> lit ''label'' \<and> t \<noteq> lit ''details'' \<and> t \<noteq> lit ''summary''
     \<and> t \<noteq> lit ''a'' \<and> t \<noteq> lit ''img'' \<and> t \<noteq> lit ''button'' \<and> t \<noteq> [] \<and> t \<noteq> lit ''-text''"
  by (auto simp: heading_tag_def lit_def)












section \<open>Empty wrappers\<close>

lemma empty_run_keeps_counter: "parse_children u n i = (Inr [], i') \<Longrightarrow> i' = i"
  using parse_children_run_ok [of u n i "[]" i'] by (simp add: run_ok_def)

lemma empty_anchor:
  "parse_children u n i = (Inr [], i) \<Longrightarrow> tag_str n = lit ''a'' \<Longrightarrow> parse_node u n els i = (Inr els, i)"
  by (simp add: parse_node.simps split: option.splits)

lemma empty_button:
  "parse_children u n i = (Inr [], i) \<Longrightarrow> tag_str n = lit ''button'' \<Longrightarrow>
   parse_node u n els i = (Inr els, i)"
  by (simp add: parse_node.simps)

lemma empty_heading:
  "parse_children u n i = (Inr [], i) \<Longrightarrow> heading_tag u (tag_str n) \<Longrightarrow>
   parse_node u n els i = (Inr els, i)"
  using heading_tag_not_named [of u "tag_str n"] by (simp add: parse_node.simps)

lemma empty_paragraph:
  "parse_children u n i = (Inr [], i) \<Longrightarrow> tag_str n = lit ''p'' \<Longrightarrow> parse_node u n els i = (Inr els, i)"
  by (simp add: parse_node.simps heading_tag_def)

lemma empty_select:
  "parse_children u n i = (Inr [], i) \<Longrightarrow> tag_str n = lit ''select'' \<Longrightarrow>
   parse_node u n els i = (Inr els, i)"
  by (simp add: parse_node.simps heading_tag_def)

lemma empty_label:
  "parse_children u n i = (Inr [], i) \<Longrightarrow> tag_str n = lit ''label'' \<Longrightarrow>
   parse_node u n els i = (Inr els, i)"
  by (simp add: parse_node.simps heading_tag_def)

lemma empty_details:
  "parse_children u n i = (Inr [], i) \<Longrightarrow> tag_str n = lit ''details'' \<Longrightarrow>
   parse_node u n els i = (Inr els, i)"
  by (simp add: parse_node.simps heading_tag_def)

lemma empty_summary:
  "parse_children u n i = (Inr [], i) \<Longrightarrow> tag_str n = lit ''summary'' \<Longrightarrow>
   parse_node u n els i = (Inr els, i)"
  by (simp add: parse_node.simps heading_tag_def)

text \<open>
  Claim C4. When the children of an anchor, button, heading, paragraph, label, details,
  summary or select node classify to the empty sequence, the node appends nothing and
  leaves the counter where it was before the node. And no output holds an empty payload:
  every \<open>inner\<close> list, every \<open>Text\<close> content and every \<open>Option\<close> text in it is non-empty.
\<close>

theorem empty_wrappers_omitted:
  "((tag_str n \<in> set [lit ''a'', lit ''button'', lit ''p'', lit ''label'', lit ''details'', lit ''summary'', lit ''select'']
       \<or> heading_tag u (tag_str n))
      \<and> parse_children u n i = (Inr [], i') \<longrightarrow>
      parse_node u n els i = (Inr els, i) \<and> i' = i)
   \<and> (parse_children u root j = (Inr es, j') \<longrightarrow> list_all nonempty es)"
proof (intro conjI impI)
  assume "parse_children u root j = (Inr es, j')"
  from parse_children_run_ok [OF this] show "list_all nonempty es"
    by (simp add: run_ok_def)
next
  assume a: "(tag_str n \<in> set [lit ''a'', lit ''button'', lit ''p'', lit ''label'', lit ''details'', lit ''summary'', lit ''select'']
       \<or> heading_tag u (tag_str n)) \<and> parse_children u n i = (Inr [], i')"
  then have i': "i' = i" using empty_run_keeps_counter by blast
  with a have kids: "parse_children u n i = (Inr [], i)" by simp
  from a have "tag_str n = lit ''a'' \<or> tag_str n = lit ''button'' \<or> tag_str n = lit ''p''
      \<or> tag_str n = lit ''label'' \<or> tag_str n = lit ''details'' \<or> tag_str n = lit ''summary''
      \<or> tag_str n = lit ''select'' \<or> heading_tag u (tag_str n)"
    by simp
  then show "parse_node u n els i = (Inr els, i)"
    using empty_anchor [OF kids] empty_button [OF kids] empty_paragraph [OF kids]
      empty_label [OF kids] empty_details [OF kids] empty_summary [OF kids]
      empty_select [OF kids] empty_heading [OF kids]
    by blast
  from i' show "i' = i" .
qed

text \<open>
  A button that holds white space only is dropped and takes no identifier: the input
  after it receives 0. The outputs of this document and of the first scenario hold no
  empty payload.
\<close>

theorem empty_wrappers_omitted_witness:
  "parse_children ucd_sample (LexborNode (Some (lit ''button'')) Map.empty [] [text_node []]) 0 = (Inr [], 0)
   \<and> parse_node ucd_sample (LexborNode (Some (lit ''button'')) Map.empty [] [text_node []]) [] 0 = (Inr [], 0)
   \<and> parse_children ucd_sample blank_button_then_input 0 = (Inr [TextInput 0 None], 1)
   \<and> list_all nonempty [TextInput 0 None]
   \<and> parse_children ucd_sample scenario 0 =
     (Inr [Heading 2 [Text (lit ''Title'')],
           Paragraph [Text (lit ''Hi''), Anchor (lit ''/x'') [Text (lit ''link'')]],
           CheckboxInput 0 True], 1)
   \<and> list_all nonempty [Heading 2 [Text (lit ''Title'')],
           Paragraph [Text (lit ''Hi''), Anchor (lit ''/x'') [Text (lit ''link'')]],
           CheckboxInput 0 True]"
proof -
  let ?b = "LexborNode (Some (lit ''button'')) Map.empty [] [text_node []]"
  have kids: "parse_children ucd_sample ?b 0 = (Inr [], 0)"
    by (simp add: eval_simps)
  have run: "parse_children ucd_sample blank_button_then_input 0 = (Inr [TextInput 0 None], 1)"
    by (simp add: blank_button_then_input_def eval_simps)
  show ?thesis
    using empty_wrappers_omitted [of ?b ucd_sample 0 0 "[]" blank_button_then_input 0 "[TextInput 0 None]" 1]
      empty_wrappers_omitted [of ?b ucd_sample 0 0 "[]" scenario 0 _ 1] kids run scenario_output
    by (simp add: tag_str_def)
qed

section \<open>Anchors without \<^verbatim>\<open>href\<close>\<close>

text \<open>
  Claim C5. An anchor without an \<^verbatim>\<open>href\<close> attribute appends nothing and leaves the
  counter unchanged, whatever its subtree holds: neither an element nor an identifier
  nor an exception of the subtree reaches the output, because the subtree is not
  classified.
\<close>

theorem anchor_without_href_skipped:
  "tag_str n = lit ''a'' \<Longrightarrow> attributes n (lit ''href'') = None \<Longrightarrow> parse_node u n els i = (Inr els, i)"
  by (simp add: parse_node.simps attr_get_def)

text \<open>
  The children of this anchor would take identifier 0 and then raise; the anchor
  without \<^verbatim>\<open>href\<close> is skipped all the same, and the input after it receives 0.
\<close>

theorem anchor_without_href_skipped_witness:
  "tag_str anchor_no_href = lit ''a'' \<and> attributes anchor_no_href (lit ''href'') = None
   \<and> parse_children ucd_sample anchor_no_href 0 = (Inl ValueError, 1)
   \<and> parse_node ucd_sample anchor_no_href [Text (lit ''before'')] 0 = (Inr [Text (lit ''before'')], 0)
   \<and> parse_children ucd_sample
         (LexborNode (Some (lit ''body'')) Map.empty [] [anchor_no_href, input_of Map.empty]) 0
       = (Inr [TextInput 0 None], 1)"
proof -
  have t: "tag_str anchor_no_href = lit ''a''" and h: "attributes anchor_no_href (lit ''href'') = None"
    by (simp_all add: anchor_no_href_def tag_str_def)
  have kids: "parse_children ucd_sample anchor_no_href 0 = (Inl ValueError, 1)"
    by (simp add: anchor_no_href_def eval_simps)
  have body: "parse_children ucd_sample
         (LexborNode (Some (lit ''body'')) Map.empty [] [anchor_no_href, input_of Map.empty]) 0
       = (Inr [TextInput 0 None], 1)"
    by (simp add: parse_children.simps [of _ "LexborNode t a x cs" for t a x cs]
         anchor_without_href_skipped [OF t h] input_of_def
         parse_node.simps [of _ "LexborNode (Some (lit ''input'')) a x cs" for a x cs]
         tag_str_def attr_get_def heading_tag_def fetch_advance_id_def)
  from anchor_without_href_skipped [OF t h, of ucd_sample "[Text (lit ''before'')]" 0] t h kids body
  show ?thesis by simp
qed

section \<open>Inputs\<close>

text \<open>
  Claim C6. On an input tag, an absent \<^verbatim>\<open>type\<close> counts as \<^verbatim>\<open>"text"\<close>; the types
  \<^verbatim>\<open>"text"\<close>, \<^verbatim>\<open>"url"\<close>, \<^verbatim>\<open>"checkbox"\<close> and \<^verbatim>\<open>"radio"\<close> append a \<open>TextInput\<close>,
  \<open>UrlInput\<close>, \<open>CheckboxInput\<close> and \<open>RadioInput\<close> carrying the current counter, and
  advance the counter by one; any other \<^verbatim>\<open>type\<close> appends nothing, leaves the counter
  unchanged and raises nothing.
\<close>

theorem input_types:
  "(tag_str n = lit ''input''
      \<and> (attributes n (lit ''type'') = None \<or> attributes n (lit ''type'') = Some (Some (lit ''text''))) \<longrightarrow>
      parse_node u n els i =
        (Inr (els @ [TextInput i (attr_get (attributes n) (lit ''placeholder'') None)]), i + 1))
   \<and> (tag_str n = lit ''input'' \<and> attributes n (lit ''type'') = Some (Some (lit ''url'')) \<longrightarrow>
      parse_node u n els i =
        (Inr (els @ [UrlInput i (attr_get (attributes n) (lit ''placeholder'') None)]), i + 1))
   \<and> (tag_str n = lit ''input'' \<and> attributes n (lit ''type'') = Some (Some (lit ''checkbox'')) \<longrightarrow>
      (\<exists>checked. parse_node u n els i = (Inr (els @ [CheckboxInput i checked]), i + 1)))
   \<and> (tag_str n = lit ''input'' \<and> attributes n (lit ''type'') = Some (Some (lit ''radio'')) \<longrightarrow>
      (\<exists>checked. parse_node u n els i = (Inr (els @ [RadioInput i checked]), i + 1)))
   \<and> (tag_str n = lit ''input'' \<and> attributes n (lit ''type'') = Some ty
        \<and> ty \<notin> set [Some (lit ''text''), Some (lit ''url''), Some (lit ''checkbox''), Some (lit ''radio'')] \<longrightarrow>
      parse_node u n els i = (Inr els, i))"
  by (auto simp: parse_node.simps attr_get_def fetch_advance_id_def heading_tag_def)

text \<open>
  Inputs without \<^verbatim>\<open>type\<close>, of each of the four types, of type \<^verbatim>\<open>"range"\<close> (the third
  scenario of the specification), and with a \<^verbatim>\<open>type\<close> that has no value.
\<close>

theorem input_types_witness:
  "parse_node ucd_sample (input_of Map.empty) [] 0 = (Inr [TextInput 0 None], 1)
   \<and> parse_node ucd_sample (input_of [lit ''type'' \<mapsto> Some (lit ''text''), lit ''placeholder'' \<mapsto> Some (lit ''name'')]) [] 0
       = (Inr [TextInput 0 (Some (lit ''name''))], 1)
   \<and> parse_node ucd_sample (input_of [lit ''type'' \<mapsto> Some (lit ''url'')]) [] 3 = (Inr [UrlInput 3 None], 4)
   \<and> (\<exists>checked. parse_node ucd_sample (input_of [lit ''type'' \<mapsto> Some (lit ''checkbox'')]) [] 0
         = (Inr [CheckboxInput 0 checked], 1))
   \<and> (\<exists>checked. parse_node ucd_sample (input_of [lit ''type'' \<mapsto> Some (lit ''radio'')]) [] 0
         = (Inr [RadioInput 0 checked], 1))
   \<and> parse_node ucd_sample (input_of [lit ''type'' \<mapsto> Some (lit ''range'')]) [] 0 = (Inr [], 0)
   \<and> parse_node ucd_sample (input_of [lit ''type'' \<mapsto> None]) [] 0 = (Inr [], 0)"
proof -
  have t: "tag_str (input_of m) = lit ''input''" and a: "attributes (input_of m) = m" for m
    by (simp_all add: input_of_def tag_str_def)
  show ?thesis
    using input_types [of "input_of Map.empty" ucd_sample "[]" 0]
      input_types
        [of "input_of [lit ''type'' \<mapsto> Some (lit ''text''), lit ''placeholder'' \<mapsto> Some (lit ''name'')]" ucd_sample "[]" 0]
      input_types [of "input_of [lit ''type'' \<mapsto> Some (lit ''url'')]" ucd_sample "[]" 3]
      input_types [of "input_of [lit ''type'' \<mapsto> Some (lit ''checkbox'')]" ucd_sample "[]" 0]
      input_types [of "input_of [lit ''type'' \<mapsto> Some (lit ''radio'')]" ucd_sample "[]" 0]
      input_types [of "input_of [lit ''type'' \<mapsto> Some (lit ''range'')]" ucd_sample "[]" 0 "Some (lit ''range'')"]
      input_types [of "input_of [lit ''type'' \<mapsto> None]" ucd_sample "[]" 0 None]
    by (simp add: t a attr_get_def)
qed

section \<open>Unrecognized tags\<close>

text \<open>
  Claim C7, as the code has it. A tag that is none of the text markers, \<^verbatim>\<open>a\<close>,
  \<^verbatim>\<open>img\<close>, \<^verbatim>\<open>button\<close>, \<^verbatim>\<open>p\<close>, \<^verbatim>\<open>input\<close>, \<^verbatim>\<open>select\<close>, \<^verbatim>\<open>option\<close>, \<^verbatim>\<open>label\<close>,
  \<^verbatim>\<open>details\<close>, \<^verbatim>\<open>summary\<close>, and that does not pass the heading test of lines 187-191
  (exactly two characters, the first \<^verbatim>\<open>h\<close>, the second one for which
  \<^verbatim>\<open>str.isdigit\<close> is true: h0 passes it as h1 to h9 do, and so does \<^verbatim>\<open>h\<close> followed
  by any other character with a digit value), is transparent: the node appends the
  classification of its children, in their order, after what was there, and no element
  of its own; the counter is the one its children leave. If its children raise, it
  raises.
\<close>

theorem unrecognized_tags_transparent:
  "tag_str n \<notin> set [[], lit ''-text'', lit ''a'', lit ''img'', lit ''button'', lit ''p'', lit ''input'', lit ''select'',
       (lit ''option''), lit ''label'', lit ''details'', lit ''summary''] \<Longrightarrow>
   \<not> heading_tag u (tag_str n) \<Longrightarrow>
   parse_node u n els i =
     (case parse_children u n i of
        (Inl e, i') \<Rightarrow> (Inl e, i')
      | (Inr cs, i') \<Rightarrow> (Inr (els @ cs), i'))"
  by (simp add: parse_node.simps split: prod.splits sum.splits)

text \<open>A \<^verbatim>\<open>div\<close> around an input and a heading splices both after the text before it.\<close>

theorem unrecognized_tags_transparent_witness:
  "tag_str (div_of [input_of Map.empty, heading_x (lit ''h1'')]) \<notin> set [[], lit ''-text'', lit ''a'', lit ''img'',
       (lit ''button''), lit ''p'', lit ''input'', lit ''select'', lit ''option'', lit ''label'', lit ''details'', lit ''summary'']
   \<and> \<not> heading_tag ucd_sample (tag_str (div_of [input_of Map.empty, heading_x (lit ''h1'')]))
   \<and> parse_children ucd_sample (div_of [input_of Map.empty, heading_x (lit ''h1'')]) 4
       = (Inr [TextInput 4 None, Heading 1 [Text (lit ''x'')]], 5)
   \<and> parse_node ucd_sample (div_of [input_of Map.empty, heading_x (lit ''h1'')]) [Text (lit ''before'')] 4
       = (Inr [Text (lit ''before''), TextInput 4 None, Heading 1 [Text (lit ''x'')]], 5)"
proof -
  let ?d = "div_of [input_of Map.empty, heading_x (lit ''h1'')]"
  have t: "tag_str ?d \<notin> set [[], lit ''-text'', lit ''a'', lit ''img'',
       (lit ''button''), lit ''p'', lit ''input'', lit ''select'', lit ''option'', lit ''label'', lit ''details'', lit ''summary'']"
    and h: "\<not> heading_tag ucd_sample (tag_str ?d)"
    by (simp_all add: div_of_def tag_str_def heading_tag_def)
  have kids: "parse_children ucd_sample ?d 4 = (Inr [TextInput 4 None, Heading 1 [Text (lit ''x'')]], 5)"
    by (simp add: eval_simps)
  from unrecognized_tags_transparent [OF t h, of "[Text (lit ''before'')]" 4] t h kids
  show ?thesis by simp
qed

text \<open>
  Claim C7 as stated fails: h0 is not in the claim's recognized set (which names h1 to
  h9), and \<^verbatim>\<open><h0>x</h0>\<close> is not transparent: it appends a heading of level 0 around
  its children's classification, not that classification.
\<close>

theorem h0_not_transparent_counterexample:
  "(lit ''h0'') \<notin> set [lit ''-text'', lit ''a'', lit ''img'', lit ''button'', lit ''h1'', lit ''h2'', lit ''h3'', lit ''h4'', lit ''h5'',
       (lit ''h6''), lit ''h7'', lit ''h8'', lit ''h9'', lit ''p'', lit ''input'', lit ''select'', lit ''option'', lit ''label'',
       (lit ''details''), lit ''summary'']
   \<and> parse_children ucd_sample (heading_x (lit ''h0'')) 0 = (Inr [Text (lit ''x'')], 0)
   \<and> parse_node ucd_sample (heading_x (lit ''h0'')) [Text (lit ''before'')] 0
       = (Inr [Text (lit ''before''), Heading 0 [Text (lit ''x'')]], 0)
   \<and> parse_node ucd_sample (heading_x (lit ''h0'')) [Text (lit ''before'')] 0
       \<noteq> (Inr ([Text (lit ''before'')] @ [Text (lit ''x'')]), 0)"
  by (simp add: eval_simps)

section \<open>Failure\<close>

text \<open>A document without a body yields the empty list and leaves the store as it was.\<close>

lemma parse_no_body: "body html = None \<Longrightarrow> parse u body self html s = (Inr [], s)"
  by (simp add: parse_def)

text \<open>
  Claim C8 does not hold of the code: the empty list for a missing body is not the only
  failure a caller sees. \<^verbatim>\<open>isdigit\<close> accepts the superscript two and \<^verbatim>\<open>int\<close> rejects
  it, so on a body that holds the tag \<^verbatim>\<open>h\<close> followed by the superscript two, around the
  text \<^verbatim>\<open>x\<close>, \<^verbatim>\<open>parse\<close> raises \<^verbatim>\<open>ValueError\<close> at line 196, with every character
  database.
\<close>

theorem superscript_heading_raises:
  assumes db: "unicode_db u"
  shows "parse u superscript_body 0 superscript_html [0] = (Inl ValueError, [0])"
proof -
  from db have "digit_value u 0xB2 = Some 2" and "decimal_value u 0xB2 = None"
    by (simp_all add: unicode_db_def)
  then show ?thesis
    by (simp add: parse_def superscript_body_def parse_children.simps parse_node.simps
        tag_str_def heading_tag_def isdigit_def int_digit_def text_node_def heading_x_def
        lit_def)
qed

text \<open>The same with the rows of the example database.\<close>

theorem superscript_heading_raises_witness:
  "unicode_db ucd_sample
   \<and> parse ucd_sample superscript_body 0 superscript_html [0] = (Inl ValueError, [0])"
  using superscript_heading_raises [OF unicode_db_sample] unicode_db_sample by simp

section \<open>Parser instances\<close>

text \<open>
  Claim C9. Every new parser starts from 0 in a slot of its own, whatever the store
  holds, and a run writes the slot of its own parser only; the result of a run and the
  counter it leaves depend on the store through the counter of its parser alone. So two
  parsers that have not run yet return the same result on the same document,
  identifiers included, in whatever order they were made and run: both made before
  either runs, or the second made after the first has run.
\<close>

theorem fresh_parsers_agree:
  "(Parser_init s = (p, s') \<longrightarrow>
      p = length s \<and> length s' = Suc (length s) \<and> s' ! p = 0
      \<and> (\<forall>k < length s. s' ! k = s ! k))
   \<and> (length (snd (parse u body self html t)) = length t
      \<and> (\<forall>k < length t. k \<noteq> self \<longrightarrow> snd (parse u body self html t) ! k = t ! k))
   \<and> (p1 < length t1 \<and> p2 < length t2 \<and> t1 ! p1 = t2 ! p2 \<longrightarrow>
      fst (parse u body p1 html t1) = fst (parse u body p2 html t2)
      \<and> snd (parse u body p1 html t1) ! p1 = snd (parse u body p2 html t2) ! p2)
   \<and> (Parser_init a0 = (pa, a1) \<and> Parser_init a1 = (qa, a2)
      \<and> parse u body pa html a2 = (ra, a3) \<and> parse u body qa html a3 = (ra', a4) \<longrightarrow>
      ra = ra' \<and> a3 ! pa = a4 ! qa)
   \<and> (Parser_init b0 = (pb, b1) \<and> parse u body pb html b1 = (rb, b2)
      \<and> Parser_init b2 = (qb, b3) \<and> parse u body qb html b3 = (rb', b4) \<longrightarrow>
      rb = rb' \<and> b2 ! pb = b4 ! qb)"
proof -
  have init: "p = length s \<and> length s' = Suc (length s) \<and> s' ! p = 0
      \<and> (\<forall>k < length s. s' ! k = s ! k)"
    if "Parser_init s = (p, s')" for s p s'
    using that by (auto simp: Parser_init_def nth_append)
  have frame: "length (snd (parse u body self html t)) = length t
      \<and> (\<forall>k < length t. k \<noteq> self \<longrightarrow> snd (parse u body self html t) ! k = t ! k)"
    for self t
    by (simp add: parse_def split: option.splits prod.splits)
  have same: "fst (parse u body p1 html t1) = fst (parse u body p2 html t2)
      \<and> snd (parse u body p1 html t1) ! p1 = snd (parse u body p2 html t2) ! p2"
    if "p1 < length t1" "p2 < length t2" "t1 ! p1 = t2 ! p2" for p1 t1 p2 t2
    using that by (simp add: parse_def split: option.splits prod.splits)
  have schedule_a: "ra = ra' \<and> a3 ! pa = a4 ! qa"
    if a: "Parser_init a0 = (pa, a1)" "Parser_init a1 = (qa, a2)"
      "parse u body pa html a2 = (ra, a3)" "parse u body qa html a3 = (ra', a4)"
  proof -
    from init [OF a(1)] init [OF a(2)] have
      1: "pa < length a2" "qa < length a2" "pa \<noteq> qa" "a2 ! pa = 0" "a2 ! qa = 0"
      by auto
    from frame [of pa a2] a(3) 1 have 2: "qa < length a3" "a3 ! qa = 0" by auto
    from same [of pa a2 qa a3] 1 2 a(3,4) show ?thesis by simp
  qed
  have schedule_b: "rb = rb' \<and> b2 ! pb = b4 ! qb"
    if b: "Parser_init b0 = (pb, b1)" "parse u body pb html b1 = (rb, b2)"
      "Parser_init b2 = (qb, b3)" "parse u body qb html b3 = (rb', b4)"
  proof -
    from init [OF b(1)] have 1: "pb < length b1" "b1 ! pb = 0" by auto
    from init [OF b(3)] have 2: "qb < length b3" "b3 ! qb = 0" by auto
    from same [of pb b1 qb b3] 1 2 b(2,4) show ?thesis by simp
  qed
  from init [of s p s'] frame [of self t] same [of p1 t1 p2 t2] schedule_a schedule_b
  show ?thesis by blast
qed

text \<open>
  Two parsers run on \<^verbatim>\<open><body><button>go</button><input></body>\<close>: made one after
  the other in an empty store and then run, or the second made after the first has
  run, both return the button with 0 and the input with 1.
\<close>

theorem fresh_parsers_agree_witness:
  "Parser_init [] = (0, [0]) \<and> Parser_init [0] = (1, [0, 0])
   \<and> parse ucd_sample input_body 0 input_html [0, 0]
       = (Inr [Button 0 [Text (lit ''go'')], TextInput 1 None], [2, 0])
   \<and> parse ucd_sample input_body 1 input_html [2, 0]
       = (Inr [Button 0 [Text (lit ''go'')], TextInput 1 None], [2, 2])
   \<and> parse ucd_sample input_body 0 input_html [0]
       = (Inr [Button 0 [Text (lit ''go'')], TextInput 1 None], [2])
   \<and> Parser_init [2] = (1, [2, 0])"
proof -
  have a: "Parser_init [] = (0, [0])" and b: "Parser_init [0] = (1, [0, 0])"
    and e: "Parser_init [2] = (1, [2, 0])"
    by (simp_all add: Parser_init_def)
  have c: "parse ucd_sample input_body 0 input_html [0, 0]
       = (Inr [Button 0 [Text (lit ''go'')], TextInput 1 None], [2, 0])"
    by (simp add: parse_def input_body_def eval_simps)
  have f: "parse ucd_sample input_body 0 input_html [0]
       = (Inr [Button 0 [Text (lit ''go'')], TextInput 1 None], [2])"
    by (simp add: parse_def input_body_def eval_simps)
  obtain r2 s4 where d: "parse ucd_sample input_body 1 input_html [2, 0] = (r2, s4)"
    by (cases "parse ucd_sample input_body 1 input_html [2, 0]")
  have sa: "Parser_init [] = (0, [0]) \<and> Parser_init [0] = (1, [0, 0])
      \<and> parse ucd_sample input_body 0 input_html [0, 0]
          = (Inr [Button 0 [Text (lit ''go'')], TextInput 1 None], [2, 0])
      \<and> parse ucd_sample input_body 1 input_html [2, 0] = (r2, s4)"
    and sb: "Parser_init [] = (0, [0])
      \<and> parse ucd_sample input_body 0 input_html [0]
          = (Inr [Button 0 [Text (lit ''go'')], TextInput 1 None], [2])
      \<and> Parser_init [2] = (1, [2, 0])
      \<and> parse ucd_sample input_body 1 input_html [2, 0] = (r2, s4)"
    using a b c d e f by simp_all
  from fresh_parsers_agree
    [where u = ucd_sample and body = input_body and html = input_html
      and ?a0.0 = "[]" and pa = 0 and ?a1.0 = "[0]" and qa = 1 and ?a2.0 = "[0, 0]"
      and ra = "Inr [Button 0 [Text (lit ''go'')], TextInput 1 None]" and ?a3.0 = "[2, 0]"
      and ra' = r2 and ?a4.0 = s4
      and ?b0.0 = "[]" and pb = 0 and ?b1.0 = "[0]"
      and rb = "Inr [Button 0 [Text (lit ''go'')], TextInput 1 None]" and ?b2.0 = "[2]"
      and qb = 1 and ?b3.0 = "[2, 0]" and rb' = r2 and ?b4.0 = s4
      and self = 1 and t = "[2, 0]"]
    sa sb
  have r: "r2 = Inr [Button 0 [Text (lit ''go'')], TextInput 1 None]" and s: "s4 ! 1 = 2"
    and l: "length s4 = 2" and k: "s4 ! 0 = 2"
    using d by simp_all
  from l s k have "s4 = [2, 2]"
    by (cases s4; simp) (rename_tac x xs, case_tac xs; simp)
  with a b c d e f r show ?thesis by simp
qed

text \<open>
  Claim C10. A second \<^verbatim>\<open>parse\<close> on the same parser starts from the counter the first
  one left: the identifiers of the first output are those from the counter's value
  before the first call up to the value after it, the identifiers of the second output
  go on from there, and every identifier of the second output is greater than every
  identifier of the first.
\<close>

theorem second_parse_continues:
  assumes "self < length s"
    and "parse u body self html1 s = (Inr es1, s1)"
    and "parse u body self html2 s1 = (Inr es2, s2)"
  shows "concat (map alloc_ids es1) = [s ! self..s1 ! self - 1]
    \<and> concat (map alloc_ids es2) = [s1 ! self..s2 ! self - 1]
    \<and> s ! self \<le> s1 ! self \<and> s1 ! self \<le> s2 ! self
    \<and> (\<forall>a \<in> set (concat (map alloc_ids es1)). \<forall>b \<in> set (concat (map alloc_ids es2)). a < b)"
proof -
  have step: "concat (map alloc_ids es) = [t ! self..t' ! self - 1] \<and> t ! self \<le> t' ! self
      \<and> length t' = length t"
    if "self < length t" and "parse u body self html t = (Inr es, t')" for html t es t'
  proof (cases "body html")
    case None
    with that show ?thesis by (auto simp: parse_def)
  next
    case (Some b)
    with that obtain i' where "parse_children u b (t ! self) = (Inr es, i')" "t' = t[self := i']"
      by (auto simp: parse_def split: prod.splits)
    with parse_children_run_ok [of u b "t ! self" es i'] that(1) show ?thesis
      by (simp add: run_ok_def)
  qed
  from step [OF assms(1,2)] have 1: "concat (map alloc_ids es1) = [s ! self..s1 ! self - 1]"
    "s ! self \<le> s1 ! self" "self < length s1" using assms(1) by simp_all
  from step [OF 1(3) assms(3)] have 2: "concat (map alloc_ids es2) = [s1 ! self..s2 ! self - 1]"
    "s1 ! self \<le> s2 ! self" by simp_all
  from 1 2 show ?thesis by auto
qed

text \<open>
  One parser run twice on \<^verbatim>\<open><body><button>go</button><input></body>\<close>: the first call
  hands out 0 and 1, the second 2 and 3.
\<close>

theorem second_parse_continues_witness:
  "(0::nat) < length [0::int]
   \<and> parse ucd_sample input_body 0 input_html [0] = (Inr [Button 0 [Text (lit ''go'')], TextInput 1 None], [2])
   \<and> parse ucd_sample input_body 0 input_html [2] = (Inr [Button 2 [Text (lit ''go'')], TextInput 3 None], [4])
   \<and> concat (map alloc_ids [Button 0 [Text (lit ''go'')], TextInput 1 None]) = [0..1]
   \<and> concat (map alloc_ids [Button 2 [Text (lit ''go'')], TextInput 3 None]) = [2..3]"
proof -
  have a: "parse ucd_sample input_body 0 input_html [0]
      = (Inr [Button 0 [Text (lit ''go'')], TextInput 1 None], [2])"
    by (simp add: parse_def input_body_def eval_simps)
  have b: "parse ucd_sample input_body 0 input_html [2]
      = (Inr [Button 2 [Text (lit ''go'')], TextInput 3 None], [4])"
    by (simp add: parse_def input_body_def eval_simps)
  have l: "(0::nat) < length [0::int]" by simp
  from second_parse_continues [OF l a b] a b show ?thesis by simp
qed

end
